theory Spec2Isabelle
  imports Main "HOL-Library.Word"
begin

unbundle bit_operations_syntax

section \<open>The character device \<open>mychardev\<close>\<close>

text \<open>
  The repository holds two variants of one Linux character-device driver:
  \<^item> \<^verbatim>\<open>mychardev.c\<close> (the file the Makefile builds), with the operations
    \<open>dev_open\<close>, \<open>dev_release\<close>, \<open>dev_read\<close>, \<open>dev_write\<close>, \<open>dev_poll\<close>, \<open>dev_ioctl\<close>;
  \<^item> a second source file with the operations \<open>device_open\<close>, \<open>device_release\<close>,
    \<open>device_read\<close>, \<open>device_write\<close>, \<open>device_ioctl\<close>, \<open>device_poll\<close>.
  Both keep the same three globals: a flag, a 256-byte buffer and the number of valid
  bytes in it. Each operation is embedded as a function from the globals (and the
  arguments of the call) to the new globals and the returned value.

  Integer types are those of a 64-bit kernel: \<open>size_t\<close> is an unsigned 64-bit word,
  \<open>loff_t\<close> a signed 64-bit one. The only place where the driver looks at a \<open>loff_t\<close>
  is the comparison \<open>*dev_offset >= dev_buf_size\<close> against a \<open>size_t\<close>, which C carries
  out on the unsigned conversions; so the offset is kept as its 64-bit pattern and
  compared as unsigned, as the code does.
\<close>

type_synonym byte = "8 word"
type_synonym size_t = "64 word"
type_synonym loff_t = "64 word"

datatype errno = EINVAL | ERESTARTSYS | EFAULT

text \<open>
  The globals \<open>data_available\<close>, \<open>dev_buf\<close> and \<open>dev_buf_size\<close> of \<^verbatim>\<open>mychardev.c\<close>
  (\<open>data_available\<close>, \<open>device_buffer\<close> and \<open>device_buffer_size\<close> in the second file).
\<close>

record dev_state =
  data_available :: int
  dev_buf :: "byte list"
  dev_buf_size :: size_t

definition DEV_BUF_LEN :: size_t where
  "DEV_BUF_LEN = 256"

definition BUF_LEN :: size_t where
  "BUF_LEN = 256"

definition SUCCESSFUL :: int where
  "SUCCESSFUL = 0"

text \<open>Static storage is zero-initialised: flag 0, 256 zero bytes, size 0.\<close>

definition dev_init :: dev_state where
  "dev_init = \<lparr>data_available = 0, dev_buf = replicate (unat DEV_BUF_LEN) 0, dev_buf_size = 0\<rparr>"

text \<open>The array has 256 elements and the recorded size does not exceed it.\<close>

definition dev_wf :: "dev_state \<Rightarrow> bool" where
  "dev_wf s = (length (dev_buf s) = unat DEV_BUF_LEN \<and> dev_buf_size s \<le> DEV_BUF_LEN)"

subsection \<open>Kernel primitives used by the driver\<close>

text \<open>
  The kernel's own functions are not part of the repository; they are modelled by their
  documented contract.

  A pointer into user memory is modelled by the list of bytes that are accessible from
  that address on: the address right after the list faults.

  \<open>copy_from_user(to, from, n)\<close> copies as many of the \<open>n\<close> bytes as are accessible into
  the kernel buffer, fills the rest of the \<open>n\<close> destination bytes with zeros, and returns
  the number of bytes it could not copy (0 on success).

  \<open>copy_to_user(to, from, n)\<close> copies as many of the \<open>n\<close> bytes as the user range
  accepts and returns the number of bytes it could not copy.

  \<open>memset(buf, c, n)\<close> sets the first \<open>n\<close> bytes.

  The three functions describe the C code as long as \<open>n\<close> stays within the kernel
  array; beyond it C has no defined behaviour.
\<close>

definition copy_from_user :: "byte list \<Rightarrow> byte list \<Rightarrow> nat \<Rightarrow> byte list \<times> nat" where
  "copy_from_user dst usrc n =
     (let k = min n (length usrc)
      in (take k usrc @ replicate (n - k) 0 @ drop n dst, n - k))"

definition copy_to_user :: "byte list \<Rightarrow> byte list \<Rightarrow> nat \<Rightarrow> byte list \<times> nat" where
  "copy_to_user udst src n =
     (let k = min n (length udst)
      in (take k src @ drop k udst, n - k))"

definition memset :: "byte list \<Rightarrow> byte \<Rightarrow> nat \<Rightarrow> byte list" where
  "memset buf c n = replicate n c @ drop n buf"

text \<open>
  \<open>_IO(type, nr)\<close> builds an ioctl number with direction 0 and size 0:
  \<open>(type << 8) | nr\<close>. \<open>IOCTL_MAGIC\<close> is the character \<open>'k'\<close>, 107.
  \<open>POLLIN\<close> and \<open>POLLRDNORM\<close> are the bits 0x0001 and 0x0040.
\<close>

definition IO :: "32 word \<Rightarrow> 32 word \<Rightarrow> 32 word" where
  "IO ty nr = push_bit 8 ty OR nr"

definition IOCTL_MAGIC :: "32 word" where
  "IOCTL_MAGIC = 107"

definition IOCTL_RESET_BUF :: "32 word" where
  "IOCTL_RESET_BUF = IO IOCTL_MAGIC 0"

definition IOCTL_RESET_BUFFER :: "32 word" where
  "IOCTL_RESET_BUFFER = IO IOCTL_MAGIC 0"

definition POLLIN :: "32 word" where
  "POLLIN = 1"

definition POLLRDNORM :: "32 word" where
  "POLLRDNORM = 64"

subsection \<open>The operations of \<^verbatim>\<open>mychardev.c\<close>\<close>

text \<open>
  Every operation takes the globals first. \<open>acquired\<close> is the outcome of
  \<open>mutex_lock_interruptible\<close> (true when it returned 0). \<open>dev_offset\<close> is the value
  behind the \<open>loff_t*\<close> the call receives; operations return it as they leave it.
  A read returns the globals, the user buffer, the offset and the value returned.
\<close>

definition dev_open :: "dev_state \<Rightarrow> dev_state \<times> int" where
  "dev_open s = (s, 0)"

definition dev_release :: "dev_state \<Rightarrow> dev_state \<times> int" where
  "dev_release s = (s, 0)"

definition dev_read ::
  "dev_state \<Rightarrow> bool \<Rightarrow> byte list \<Rightarrow> size_t \<Rightarrow> loff_t
     \<Rightarrow> dev_state \<times> byte list \<times> loff_t \<times> (errno + size_t)" where
  "dev_read s acquired user_buf amt_to_copy dev_offset =
     (if dev_offset \<ge> dev_buf_size s then (s, user_buf, dev_offset, Inr 0)
      else if \<not> acquired then (s, user_buf, dev_offset, Inl ERESTARTSYS)
      else
        let amt_data_remaining = dev_buf_size s - dev_offset;
            amt_to_copy = (if amt_to_copy > amt_data_remaining then amt_data_remaining
                           else amt_to_copy);
            (user_buf', not_copied) = copy_to_user user_buf (dev_buf s) (unat amt_to_copy)
        in if not_copied \<noteq> 0 then (s, user_buf', dev_offset, Inl EFAULT)
           else (s\<lparr>data_available := 0\<rparr>, user_buf', dev_offset + amt_to_copy,
                 Inr amt_to_copy))"

definition dev_write ::
  "dev_state \<Rightarrow> bool \<Rightarrow> byte list \<Rightarrow> size_t \<Rightarrow> loff_t
     \<Rightarrow> dev_state \<times> loff_t \<times> (errno + size_t)" where
  "dev_write s acquired user_buf amt_to_write dev_offset =
     (if amt_to_write > dev_buf_size s then (s, dev_offset, Inl EINVAL)
      else if \<not> acquired then (s, dev_offset, Inl ERESTARTSYS)
      else
        let (buf', not_copied) = copy_from_user (dev_buf s) user_buf (unat amt_to_write)
        in if not_copied \<noteq> 0 then (s\<lparr>dev_buf := buf'\<rparr>, dev_offset, Inl EFAULT)
           else (s\<lparr>dev_buf := buf', dev_buf_size := amt_to_write, data_available := 1\<rparr>,
                 dev_offset, Inr amt_to_write))"

definition dev_poll :: "dev_state \<Rightarrow> loff_t \<Rightarrow> dev_state \<times> loff_t \<times> 32 word" where
  "dev_poll s dev_offset =
     (let mask = 0;
          mask = (if data_available s \<noteq> 0 then mask OR POLLIN OR POLLRDNORM else mask)
      in (s, dev_offset, mask))"

definition dev_ioctl :: "dev_state \<Rightarrow> 32 word \<Rightarrow> dev_state \<times> (errno + int)" where
  "dev_ioctl s cmd =
     (if cmd = IOCTL_RESET_BUF
      then (s\<lparr>dev_buf := memset (dev_buf s) 0 (unat DEV_BUF_LEN),
               dev_buf_size := 0, data_available := 0\<rparr>, Inr SUCCESSFUL)
      else (s, Inl EINVAL))"

subsection \<open>The operations of the second source file\<close>

definition device_open :: "dev_state \<Rightarrow> dev_state \<times> int" where
  "device_open s = (s, 0)"

definition device_release :: "dev_state \<Rightarrow> dev_state \<times> int" where
  "device_release s = (s, 0)"

definition device_read ::
  "dev_state \<Rightarrow> bool \<Rightarrow> byte list \<Rightarrow> size_t \<Rightarrow> loff_t
     \<Rightarrow> dev_state \<times> byte list \<times> loff_t \<times> (errno + size_t)" where
  "device_read s acquired user_buffer amount_to_read device_buffer_offset =
     (if device_buffer_offset \<ge> dev_buf_size s
      then (s, user_buffer, device_buffer_offset, Inr 0)
      else if \<not> acquired then (s, user_buffer, device_buffer_offset, Inl ERESTARTSYS)
      else
        let remaining_dev_buffer_space = dev_buf_size s - device_buffer_offset;
            amount_to_read = (if amount_to_read > remaining_dev_buffer_space
                              then remaining_dev_buffer_space else amount_to_read);
            (user_buffer', not_copied) =
               copy_to_user user_buffer (drop (unat device_buffer_offset) (dev_buf s))
                 (unat amount_to_read)
        in if not_copied \<noteq> 0 then (s, user_buffer', device_buffer_offset, Inl EFAULT)
           else (s\<lparr>data_available := 0\<rparr>, user_buffer',
                 device_buffer_offset + amount_to_read, Inr amount_to_read))"

definition device_write ::
  "dev_state \<Rightarrow> bool \<Rightarrow> byte list \<Rightarrow> size_t \<Rightarrow> loff_t
     \<Rightarrow> dev_state \<times> loff_t \<times> (errno + size_t)" where
  "device_write s acquired user_buffer amount_to_write device_buffer_offset =
     (if amount_to_write > BUF_LEN then (s, device_buffer_offset, Inl EINVAL)
      else if \<not> acquired then (s, device_buffer_offset, Inl ERESTARTSYS)
      else
        let (buf', not_copied) = copy_from_user (dev_buf s) user_buffer (unat amount_to_write)
        in if not_copied \<noteq> 0 then (s\<lparr>dev_buf := buf'\<rparr>, device_buffer_offset, Inl EFAULT)
           else (s\<lparr>dev_buf := buf', dev_buf_size := amount_to_write, data_available := 1\<rparr>,
                 device_buffer_offset, Inr amount_to_write))"

definition device_ioctl :: "dev_state \<Rightarrow> 32 word \<Rightarrow> dev_state \<times> (errno + int)" where
  "device_ioctl s cmd =
     (if cmd = IOCTL_RESET_BUFFER
      then (s\<lparr>dev_buf := memset (dev_buf s) 0 (unat BUF_LEN),
               dev_buf_size := 0, data_available := 0\<rparr>, Inr 0)
      else (s, Inl EINVAL))"

definition device_poll :: "dev_state \<Rightarrow> loff_t \<Rightarrow> dev_state \<times> loff_t \<times> 32 word" where
  "device_poll s device_buffer_offset =
     (let mask = 0;
          mask = (if data_available s \<noteq> 0 then mask OR POLLIN OR POLLRDNORM else mask)
      in (s, device_buffer_offset, mask))"

subsection \<open>States the driver can reach\<close>

text \<open>
  The states of the globals after any sequence of calls, starting from the
  zero-initialised module. The offset of a call is left arbitrary: it is the file
  position of whichever open file the call comes through (0 right after \<open>open\<close>), or
  the position given to \<open>pread\<close>.
\<close>

inductive reachable :: "dev_state \<Rightarrow> bool" where
  reach_init: "reachable dev_init"
| reach_open: "reachable s \<Longrightarrow> reachable (fst (dev_open s))"
| reach_release: "reachable s \<Longrightarrow> reachable (fst (dev_release s))"
| reach_read: "reachable s \<Longrightarrow>
     reachable (fst (dev_read s acquired user_buf amt_to_copy dev_offset))"
| reach_write: "reachable s \<Longrightarrow>
     reachable (fst (dev_write s acquired user_buf amt_to_write dev_offset))"
| reach_poll: "reachable s \<Longrightarrow> reachable (fst (dev_poll s dev_offset))"
| reach_ioctl: "reachable s \<Longrightarrow> reachable (fst (dev_ioctl s cmd))"

inductive device_reachable :: "dev_state \<Rightarrow> bool" where
  dreach_init: "device_reachable dev_init"
| dreach_open: "device_reachable s \<Longrightarrow> device_reachable (fst (device_open s))"
| dreach_release: "device_reachable s \<Longrightarrow> device_reachable (fst (device_release s))"
| dreach_read: "device_reachable s \<Longrightarrow>
     device_reachable (fst (device_read s acquired user_buffer amount_to_read
                              device_buffer_offset))"
| dreach_write: "device_reachable s \<Longrightarrow>
     device_reachable (fst (device_write s acquired user_buffer amount_to_write
                              device_buffer_offset))"
| dreach_poll: "device_reachable s \<Longrightarrow>
     device_reachable (fst (device_poll s device_buffer_offset))"
| dreach_ioctl: "device_reachable s \<Longrightarrow> device_reachable (fst (device_ioctl s cmd))"

subsection \<open>Concrete inputs used in the examples\<close>

text \<open>The ten ASCII bytes \<open>0123456789\<close>, and the globals holding them as a 10-byte message.\<close>

definition digits :: "byte list" where
  "digits = [48, 49, 50, 51, 52, 53, 54, 55, 56, 57]"

definition digits_state :: dev_state where
  "digits_state = \<lparr>data_available = 1, dev_buf = digits @ replicate 246 0, dev_buf_size = 10\<rparr>"

section \<open>Properties of the kernel primitives\<close>

lemma copy_to_user_ok:
  "n \<le> length udst \<Longrightarrow> copy_to_user udst src n = (take n src @ drop n udst, 0)"
  by (simp add: copy_to_user_def Let_def min_def)

lemma copy_to_user_fault:
  "length udst < n \<Longrightarrow> snd (copy_to_user udst src n) \<noteq> 0"
  by (simp add: copy_to_user_def Let_def min_def)

lemma copy_from_user_ok:
  "n \<le> length usrc \<Longrightarrow> copy_from_user dst usrc n = (take n usrc @ drop n dst, 0)"
  by (simp add: copy_from_user_def Let_def min_def)

lemma copy_from_user_fault:
  "length usrc < n \<Longrightarrow> snd (copy_from_user dst usrc n) \<noteq> 0"
  by (simp add: copy_from_user_def Let_def min_def)

lemma copy_from_user_length:
  "n \<le> length dst \<Longrightarrow> length (fst (copy_from_user dst usrc n)) = length dst"
  by (simp add: copy_from_user_def Let_def min_def)

lemma copy_from_user_drop:
  "drop n (fst (copy_from_user dst usrc n)) = drop n dst"
  by (simp add: copy_from_user_def Let_def min_def)

section \<open>Word arithmetic of a read\<close>




section \<open>What each call returns\<close>

lemma clamp_is_min:
  fixes n r :: size_t
  shows "(if n > r then r else n) = min n r"
  by (auto simp add: min_def)

lemma device_write_too_long:
  "n > BUF_LEN \<Longrightarrow> device_write s acq ub n off = (s, off, Inl EINVAL)"
  by (simp add: device_write_def)

lemma device_write_ok:
  "n \<le> BUF_LEN \<Longrightarrow> unat n \<le> length ub \<Longrightarrow>
   device_write s True ub n off =
     (s\<lparr>dev_buf := take (unat n) ub @ drop (unat n) (dev_buf s),
        dev_buf_size := n, data_available := 1\<rparr>, off, Inr n)"
  by (simp add: device_write_def copy_from_user_ok not_less)

lemma device_write_Inr:
  "device_write s acq ub n off = (s1, o1, Inr r) \<Longrightarrow>
   acq \<and> n \<le> BUF_LEN \<and> unat n \<le> length ub \<and> r = n \<and> o1 = off \<and>
   s1 = s\<lparr>dev_buf := take (unat n) ub @ drop (unat n) (dev_buf s),
          dev_buf_size := n, data_available := 1\<rparr>"
  by (auto simp add: device_write_def Let_def copy_from_user_def min_def
      split: prod.splits if_splits)

lemma dev_write_Inr:
  "dev_write s acq ub n off = (s1, o1, Inr r) \<Longrightarrow>
   acq \<and> n \<le> dev_buf_size s \<and> unat n \<le> length ub \<and> r = n \<and> o1 = off \<and>
   s1 = s\<lparr>dev_buf := take (unat n) ub @ drop (unat n) (dev_buf s),
          dev_buf_size := n, data_available := 1\<rparr>"
  by (auto simp add: dev_write_def Let_def copy_from_user_def min_def
      split: prod.splits if_splits)

lemma device_read_past_end:
  "dev_buf_size s \<le> off \<Longrightarrow> device_read s acq ub n off = (s, ub, off, Inr 0)"
  by (simp add: device_read_def)

lemma dev_read_past_end:
  "dev_buf_size s \<le> off \<Longrightarrow> dev_read s acq ub n off = (s, ub, off, Inr 0)"
  by (simp add: dev_read_def)

lemma device_read_ok:
  assumes "off < dev_buf_size s"
    and "unat (min n (dev_buf_size s - off)) \<le> length ub"
  shows "device_read s True ub n off =
     (s\<lparr>data_available := 0\<rparr>,
      take (unat (min n (dev_buf_size s - off))) (drop (unat off) (dev_buf s))
        @ drop (unat (min n (dev_buf_size s - off))) ub,
      off + min n (dev_buf_size s - off), Inr (min n (dev_buf_size s - off)))"
proof -
  from assms(1) have "\<not> dev_buf_size s \<le> off" by (simp add: not_le)
  then show ?thesis
    unfolding device_read_def Let_def clamp_is_min
    by (simp add: copy_to_user_ok [OF assms(2)])
qed

lemma dev_read_ok:
  assumes "off < dev_buf_size s"
    and "unat (min n (dev_buf_size s - off)) \<le> length ub"
  shows "dev_read s True ub n off =
     (s\<lparr>data_available := 0\<rparr>,
      take (unat (min n (dev_buf_size s - off))) (dev_buf s)
        @ drop (unat (min n (dev_buf_size s - off))) ub,
      off + min n (dev_buf_size s - off), Inr (min n (dev_buf_size s - off)))"
proof -
  from assms(1) have "\<not> dev_buf_size s \<le> off" by (simp add: not_le)
  then show ?thesis
    unfolding dev_read_def Let_def clamp_is_min
    by (simp add: copy_to_user_ok [OF assms(2)])
qed

section \<open>Writing a message and reading it back\<close>

lemma dev_read_back:
  assumes sz: "dev_buf_size s1 = n" and buf: "take (unat n) (dev_buf s1) = b"
    and len: "unat n = length b" and room: "length b \<le> length rbuf"
  shows "\<exists>s2 u2 o2. dev_read s1 True rbuf n 0 = (s2, u2, o2, Inr n) \<and> take (length b) u2 = b"
proof (cases "n = 0")
  case True
  with sz have "dev_read s1 True rbuf n 0 = (s1, rbuf, 0, Inr 0)"
    by (simp add: dev_read_past_end)
  with True len show ?thesis by simp
next
  case False
  then have pos: "0 < dev_buf_size s1" using sz by (simp add: word_neq_0_conv)
  have "unat (min n (dev_buf_size s1 - 0)) \<le> length rbuf"
    using sz len room by simp
  from dev_read_ok [OF pos this] sz buf len show ?thesis by simp
qed

lemma device_read_back:
  assumes sz: "dev_buf_size s1 = n" and buf: "take (unat n) (dev_buf s1) = b"
    and len: "unat n = length b" and room: "length b \<le> length rbuf"
  shows "\<exists>s2 u2 o2. device_read s1 True rbuf n 0 = (s2, u2, o2, Inr n) \<and> take (length b) u2 = b"
proof (cases "n = 0")
  case True
  with sz have "device_read s1 True rbuf n 0 = (s1, rbuf, 0, Inr 0)"
    by (simp add: device_read_past_end)
  with True len show ?thesis by simp
next
  case False
  then have pos: "0 < dev_buf_size s1" using sz by (simp add: word_neq_0_conv)
  have "unat (min n (dev_buf_size s1 - 0)) \<le> length rbuf"
    using sz len room by simp
  from device_read_ok [OF pos this] sz buf len show ?thesis by simp
qed

text \<open>
  Claim C1. Let \<open>b\<close> be a byte sequence of at most 256 bytes, lying in user memory
  (followed by whatever else is accessible there, \<open>rest\<close>), and \<open>n\<close> its length. In
  both source files and from any state of the globals: if the write of \<open>b\<close> returns a
  byte count, then a read at offset 0 asking for \<open>n\<close> bytes, which gets the lock and a
  user buffer with room for \<open>n\<close> bytes, returns \<open>n\<close> and leaves exactly \<open>b\<close> in the
  first \<open>n\<close> bytes of that buffer.
\<close>

theorem write_then_read_returns_written:
  assumes len: "unat n = length b" and cap: "length b \<le> unat DEV_BUF_LEN"
    and room: "length b \<le> length rbuf"
  shows "(dev_write s acq (b @ rest) n woff = (s1, o1, Inr r) \<longrightarrow>
            (\<exists>s2 u2 o2. dev_read s1 True rbuf n 0 = (s2, u2, o2, Inr n)
               \<and> take (length b) u2 = b))
       \<and> (device_write t acq (b @ rest) n woff = (t1, p1, Inr q) \<longrightarrow>
            (\<exists>t2 v2 p2. device_read t1 True rbuf n 0 = (t2, v2, p2, Inr n)
               \<and> take (length b) v2 = b))"
proof (intro conjI impI)
  assume "dev_write s acq (b @ rest) n woff = (s1, o1, Inr r)"
  from dev_write_Inr [OF this] len
  have "dev_buf_size s1 = n" and "take (unat n) (dev_buf s1) = b" by simp_all
  then show "\<exists>s2 u2 o2. dev_read s1 True rbuf n 0 = (s2, u2, o2, Inr n)
               \<and> take (length b) u2 = b"
    using len room by (rule dev_read_back)
next
  assume "device_write t acq (b @ rest) n woff = (t1, p1, Inr q)"
  from device_write_Inr [OF this] len
  have "dev_buf_size t1 = n" and "take (unat n) (dev_buf t1) = b" by simp_all
  then show "\<exists>t2 v2 p2. device_read t1 True rbuf n 0 = (t2, v2, p2, Inr n)
               \<and> take (length b) v2 = b"
    using len room by (rule device_read_back)
qed

text \<open>
  The ten digits: written over a state that already holds ten bytes (first file, whose
  guard needs that) and over the initial state (second file), then read back whole.
\<close>

theorem write_then_read_returns_written_witness:
  "unat (10 :: size_t) = length digits \<and> length digits \<le> unat DEV_BUF_LEN
   \<and> length digits \<le> length (replicate 10 (0 :: byte))
   \<and> dev_write digits_state True (digits @ []) 10 0 = (digits_state, 0, Inr 10)
   \<and> (\<exists>s2 u2 o2. dev_read digits_state True (replicate 10 0) 10 0 = (s2, u2, o2, Inr 10)
         \<and> take (length digits) u2 = digits)
   \<and> device_write dev_init True (digits @ []) 10 0 = (digits_state, 0, Inr 10)
   \<and> (\<exists>t2 v2 p2. device_read digits_state True (replicate 10 0) 10 0 = (t2, v2, p2, Inr 10)
         \<and> take (length digits) v2 = digits)"
proof -
  have h1: "unat (10 :: size_t) = length digits" by (simp add: digits_def)
  have h2: "length digits \<le> unat DEV_BUF_LEN" by (simp add: digits_def DEV_BUF_LEN_def)
  have h3: "length digits \<le> length (replicate 10 (0 :: byte))" by (simp add: digits_def)
  have w1: "dev_write digits_state True (digits @ []) 10 0 = (digits_state, 0, Inr 10)"
    by (simp add: dev_write_def digits_state_def digits_def copy_from_user_def)
  have w2: "device_write dev_init True (digits @ []) 10 0 = (digits_state, 0, Inr 10)"
    by (simp add: device_write_def dev_init_def digits_state_def digits_def
        copy_from_user_def BUF_LEN_def DEV_BUF_LEN_def)
  from write_then_read_returns_written [OF h1 h2 h3, where s = digits_state and acq = True
      and rest = "[]" and woff = 0 and ?s1.0 = digits_state and ?o1.0 = 0 and r = 10
      and t = dev_init and ?t1.0 = digits_state and ?p1.0 = 0 and q = 10]
  show ?thesis using h1 h2 h3 w1 w2
    by simp
qed

section \<open>The availability flag and \<open>poll\<close>\<close>

lemma dev_read_Inr_pos:
  "dev_read s acq ub n off = (s2, u2, o2, Inr k) \<Longrightarrow> k \<noteq> 0 \<Longrightarrow> s2 = s\<lparr>data_available := 0\<rparr>"
  by (auto simp add: dev_read_def Let_def split: if_splits prod.splits)

lemma device_read_Inr_pos:
  "device_read s acq ub n off = (s2, u2, o2, Inr k) \<Longrightarrow> k \<noteq> 0 \<Longrightarrow> s2 = s\<lparr>data_available := 0\<rparr>"
  by (auto simp add: device_read_def Let_def split: if_splits prod.splits)

lemma dev_poll_eq:
  "dev_poll s off = (s, off, if data_available s \<noteq> 0 then POLLIN OR POLLRDNORM else 0)"
  by (simp add: dev_poll_def Let_def)

lemma device_poll_eq:
  "device_poll s off = (s, off, if data_available s \<noteq> 0 then POLLIN OR POLLRDNORM else 0)"
  by (simp add: device_poll_def Let_def)

text \<open>
  Claim C5. In both source files: after a write that returns a byte count the flag is
  set and \<open>poll\<close> returns \<open>POLLIN | POLLRDNORM\<close>; after a read that returns a count
  other than 0 the flag is 0 and \<open>poll\<close> returns the empty mask. Nothing is asked of
  the offset the read leaves, so this holds also when bytes remain beyond it.
\<close>

theorem poll_after_write_and_after_read:
  "(dev_write s acq ub n off = (s1, o1, Inr r) \<longrightarrow>
      data_available s1 = 1 \<and> snd (snd (dev_poll s1 o1)) = POLLIN OR POLLRDNORM)
   \<and> (dev_read s acq ub n off = (s2, u2, o2, Inr k) \<and> k \<noteq> 0 \<longrightarrow>
      data_available s2 = 0 \<and> snd (snd (dev_poll s2 o2)) = 0)
   \<and> (device_write s acq ub n off = (t1, p1, Inr q) \<longrightarrow>
      data_available t1 = 1 \<and> snd (snd (device_poll t1 p1)) = POLLIN OR POLLRDNORM)
   \<and> (device_read s acq ub n off = (t2, v2, p2, Inr j) \<and> j \<noteq> 0 \<longrightarrow>
      data_available t2 = 0 \<and> snd (snd (device_poll t2 p2)) = 0)"
proof (intro conjI impI)
  assume "dev_write s acq ub n off = (s1, o1, Inr r)"
  from dev_write_Inr [OF this] have f: "data_available s1 = 1" by simp
  then show "data_available s1 = 1" .
  from f show "snd (snd (dev_poll s1 o1)) = POLLIN OR POLLRDNORM"
    by (simp add: dev_poll_eq)
next
  assume "dev_read s acq ub n off = (s2, u2, o2, Inr k) \<and> k \<noteq> 0"
  then have f: "data_available s2 = 0" by (auto dest: dev_read_Inr_pos)
  then show "data_available s2 = 0" .
  from f show "snd (snd (dev_poll s2 o2)) = 0" by (simp add: dev_poll_eq)
next
  assume "device_write s acq ub n off = (t1, p1, Inr q)"
  from device_write_Inr [OF this] have f: "data_available t1 = 1" by simp
  then show "data_available t1 = 1" .
  from f show "snd (snd (device_poll t1 p1)) = POLLIN OR POLLRDNORM"
    by (simp add: device_poll_eq)
next
  assume "device_read s acq ub n off = (t2, v2, p2, Inr j) \<and> j \<noteq> 0"
  then have f: "data_available t2 = 0" by (auto dest: device_read_Inr_pos)
  then show "data_available t2 = 0" .
  from f show "snd (snd (device_poll t2 p2)) = 0" by (simp add: device_poll_eq)
qed

text \<open>
  Reading 5 of the ten digits at offset 0: the read returns 5 and leaves the offset at 5,
  below the size 10, and \<open>poll\<close> reports nothing readable. Writing 5 digits over the
  ten sets the flag.
\<close>

theorem poll_after_write_and_after_read_witness:
  "dev_write digits_state True (take 5 digits) 5 0
      = (digits_state\<lparr>dev_buf_size := 5\<rparr>, 0, Inr 5)
   \<and> data_available (digits_state\<lparr>dev_buf_size := 5\<rparr>) = 1
   \<and> snd (snd (dev_poll (digits_state\<lparr>dev_buf_size := 5\<rparr>) 0)) = POLLIN OR POLLRDNORM
   \<and> dev_read digits_state True (replicate 5 0) 5 0
      = (digits_state\<lparr>data_available := 0\<rparr>, take 5 digits, 5, Inr 5)
   \<and> (5 :: size_t) \<noteq> 0 \<and> (5 :: size_t) < dev_buf_size (digits_state\<lparr>data_available := 0\<rparr>)
   \<and> snd (snd (dev_poll (digits_state\<lparr>data_available := 0\<rparr>) 5)) = 0
   \<and> device_write digits_state True (take 5 digits) 5 0
      = (digits_state\<lparr>dev_buf_size := 5\<rparr>, 0, Inr 5)
   \<and> snd (snd (device_poll (digits_state\<lparr>dev_buf_size := 5\<rparr>) 0)) = POLLIN OR POLLRDNORM
   \<and> device_read digits_state True (replicate 5 0) 5 0
      = (digits_state\<lparr>data_available := 0\<rparr>, take 5 digits, 5, Inr 5)
   \<and> snd (snd (device_poll (digits_state\<lparr>data_available := 0\<rparr>) 5)) = 0"
proof -
  have w1: "dev_write digits_state True (take 5 digits) 5 0
      = (digits_state\<lparr>dev_buf_size := 5\<rparr>, 0, Inr 5)"
    by (simp add: dev_write_def digits_state_def digits_def copy_from_user_def)
  have r1: "dev_read digits_state True (replicate 5 0) 5 0
      = (digits_state\<lparr>data_available := 0\<rparr>, take 5 digits, 5, Inr 5)"
    by (simp add: dev_read_def digits_state_def digits_def copy_to_user_def)
  have w2: "device_write digits_state True (take 5 digits) 5 0
      = (digits_state\<lparr>dev_buf_size := 5\<rparr>, 0, Inr 5)"
    by (simp add: device_write_def digits_state_def digits_def copy_from_user_def BUF_LEN_def)
  have r2: "device_read digits_state True (replicate 5 0) 5 0
      = (digits_state\<lparr>data_available := 0\<rparr>, take 5 digits, 5, Inr 5)"
    by (simp add: device_read_def digits_state_def digits_def copy_to_user_def)
  have lt: "(5 :: size_t) < dev_buf_size (digits_state\<lparr>data_available := 0\<rparr>)"
    by (simp add: digits_state_def)
  from poll_after_write_and_after_read [where s = digits_state and acq = True
      and ub = "take 5 digits" and n = 5 and off = 0
      and ?s1.0 = "digits_state\<lparr>dev_buf_size := 5\<rparr>" and ?o1.0 = 0 and r = 5
      and ?t1.0 = "digits_state\<lparr>dev_buf_size := 5\<rparr>" and ?p1.0 = 0 and q = 5]
    poll_after_write_and_after_read [where s = digits_state and acq = True
      and ub = "replicate 5 0" and n = 5 and off = 0
      and ?s2.0 = "digits_state\<lparr>data_available := 0\<rparr>" and ?u2.0 = "take 5 digits"
      and ?o2.0 = 5 and k = 5
      and ?t2.0 = "digits_state\<lparr>data_available := 0\<rparr>" and ?v2.0 = "take 5 digits"
      and ?p2.0 = 5 and j = 5]
  show ?thesis using w1 r1 w2 r2 lt by simp
qed

text \<open>
  Claim C6. In both source files \<open>poll\<close> returns a mask that has the bit \<open>POLLIN\<close>, and
  the bit \<open>POLLRDNORM\<close>, exactly when the flag is not 0, and it returns the globals
  (flag, buffer, size) and the offset of the open file as it found them.
\<close>

theorem poll_reads_flag_and_changes_nothing:
  "fst (dev_poll s off) = s \<and> fst (snd (dev_poll s off)) = off
   \<and> (snd (snd (dev_poll s off)) AND POLLIN = POLLIN) = (data_available s \<noteq> 0)
   \<and> (snd (snd (dev_poll s off)) AND POLLRDNORM = POLLRDNORM) = (data_available s \<noteq> 0)
   \<and> fst (device_poll s off) = s \<and> fst (snd (device_poll s off)) = off
   \<and> (snd (snd (device_poll s off)) AND POLLIN = POLLIN) = (data_available s \<noteq> 0)
   \<and> (snd (snd (device_poll s off)) AND POLLRDNORM = POLLRDNORM) = (data_available s \<noteq> 0)"
  by (simp add: dev_poll_eq device_poll_eq POLLIN_def POLLRDNORM_def)

section \<open>Reset\<close>

text \<open>
  Claim C7. In both source files, on the 256-byte buffer, the reset command returns
  success and leaves 256 zero bytes, size 0 and flag 0; a second reset right after the
  first returns the same and leaves the same state.
\<close>

theorem reset_clears_and_is_idempotent:
  assumes "length (dev_buf s) = unat DEV_BUF_LEN"
  shows "dev_ioctl s IOCTL_RESET_BUF
           = (\<lparr>data_available = 0, dev_buf = replicate 256 0, dev_buf_size = 0\<rparr>, Inr 0)
       \<and> dev_ioctl (fst (dev_ioctl s IOCTL_RESET_BUF)) IOCTL_RESET_BUF
           = dev_ioctl s IOCTL_RESET_BUF
       \<and> device_ioctl s IOCTL_RESET_BUFFER
           = (\<lparr>data_available = 0, dev_buf = replicate 256 0, dev_buf_size = 0\<rparr>, Inr 0)
       \<and> device_ioctl (fst (device_ioctl s IOCTL_RESET_BUFFER)) IOCTL_RESET_BUFFER
           = device_ioctl s IOCTL_RESET_BUFFER"
  using assms
  by (simp add: dev_ioctl_def device_ioctl_def memset_def DEV_BUF_LEN_def BUF_LEN_def
      SUCCESSFUL_def)

text \<open>Resetting the state that holds the ten digits.\<close>

theorem reset_clears_and_is_idempotent_witness:
  "length (dev_buf digits_state) = unat DEV_BUF_LEN
   \<and> dev_ioctl digits_state IOCTL_RESET_BUF
         = (\<lparr>data_available = 0, dev_buf = replicate 256 0, dev_buf_size = 0\<rparr>, Inr 0)
   \<and> dev_ioctl (fst (dev_ioctl digits_state IOCTL_RESET_BUF)) IOCTL_RESET_BUF
         = dev_ioctl digits_state IOCTL_RESET_BUF
   \<and> device_ioctl digits_state IOCTL_RESET_BUFFER
         = (\<lparr>data_available = 0, dev_buf = replicate 256 0, dev_buf_size = 0\<rparr>, Inr 0)
   \<and> device_ioctl (fst (device_ioctl digits_state IOCTL_RESET_BUFFER)) IOCTL_RESET_BUFFER
         = device_ioctl digits_state IOCTL_RESET_BUFFER"
proof -
  have h: "length (dev_buf digits_state) = unat DEV_BUF_LEN"
    by (simp add: digits_state_def digits_def DEV_BUF_LEN_def)
  from reset_clears_and_is_idempotent [OF h] h show ?thesis
    by blast
qed

section \<open>A read of zero bytes\<close>

text \<open>
  Claim C10. In both source files, when the offset is below the size, a read that asks
  for 0 bytes and gets the lock returns 0, leaves the user buffer, the offset, the
  buffer and the size as they were, and sets the flag to 0, so that \<open>poll\<close> on the
  state it leaves returns the empty mask.
\<close>

theorem zero_length_read_clears_flag:
  assumes "off < dev_buf_size s"
  shows "dev_read s True ub 0 off = (s\<lparr>data_available := 0\<rparr>, ub, off, Inr 0)
       \<and> snd (snd (dev_poll (fst (dev_read s True ub 0 off)) off)) = 0
       \<and> device_read s True ub 0 off = (s\<lparr>data_available := 0\<rparr>, ub, off, Inr 0)
       \<and> snd (snd (device_poll (fst (device_read s True ub 0 off)) off)) = 0"
proof -
  from assms have past: "\<not> dev_buf_size s \<le> off" by (simp add: not_le)
  have r1: "dev_read s True ub 0 off = (s\<lparr>data_available := 0\<rparr>, ub, off, Inr 0)"
    using past by (simp add: dev_read_def Let_def copy_to_user_def)
  have r2: "device_read s True ub 0 off = (s\<lparr>data_available := 0\<rparr>, ub, off, Inr 0)"
    using past by (simp add: device_read_def Let_def copy_to_user_def)
  show ?thesis
    by (simp add: r1 r2 dev_poll_eq device_poll_eq)
qed

theorem zero_length_read_clears_flag_witness:
  "(0 :: size_t) < dev_buf_size digits_state
   \<and> data_available digits_state = 1
   \<and> snd (snd (dev_poll digits_state 0)) = POLLIN OR POLLRDNORM
   \<and> dev_read digits_state True [] 0 0 = (digits_state\<lparr>data_available := 0\<rparr>, [], 0, Inr 0)
   \<and> snd (snd (dev_poll (fst (dev_read digits_state True [] 0 0)) 0)) = 0
   \<and> device_read digits_state True [] 0 0 = (digits_state\<lparr>data_available := 0\<rparr>, [], 0, Inr 0)
   \<and> snd (snd (device_poll (fst (device_read digits_state True [] 0 0)) 0)) = 0"
proof -
  have h: "(0 :: size_t) < dev_buf_size digits_state" by (simp add: digits_state_def)
  have f: "data_available digits_state = 1" by (simp add: digits_state_def)
  from zero_length_read_clears_flag [OF h, of "[]"] h f show ?thesis
    by (simp add: dev_poll_eq device_poll_eq)
qed

section \<open>The write guard of \<^verbatim>\<open>mychardev.c\<close>\<close>

lemma dev_write_size_le:
  "dev_buf_size (fst (dev_write s acq ub n off)) \<le> dev_buf_size s"
  by (simp add: dev_write_def Let_def not_less split: prod.splits)

lemma dev_write_rejects:
  "n > dev_buf_size s \<Longrightarrow> dev_write s acq ub n off = (s, off, Inl EINVAL)"
  by (simp add: dev_write_def)

lemma dev_read_size:
  "dev_buf_size (fst (dev_read s acq ub n off)) = dev_buf_size s"
  by (simp add: dev_read_def Let_def split: prod.splits)

lemma dev_ioctl_size:
  "dev_buf_size s = 0 \<Longrightarrow> dev_buf_size (fst (dev_ioctl s cmd)) = 0"
  by (simp add: dev_ioctl_def)

lemma reachable_size_zero:
  "reachable s \<Longrightarrow> dev_buf_size s = 0"
proof (induction rule: reachable.induct)
  case reach_init
  show ?case by (simp add: dev_init_def)
next
  case (reach_open s)
  then show ?case by (simp add: dev_open_def)
next
  case (reach_release s)
  then show ?case by (simp add: dev_release_def)
next
  case (reach_read s acquired user_buf amt_to_copy dev_offset)
  then show ?case by (simp add: dev_read_size)
next
  case (reach_write s acquired user_buf amt_to_write dev_offset)
  from dev_write_size_le [of s acquired user_buf amt_to_write dev_offset] reach_write.IH
  show ?case by simp
next
  case (reach_poll s dev_offset)
  then show ?case by (simp add: dev_poll_eq)
next
  case (reach_ioctl s cmd)
  then show ?case by (simp add: dev_ioctl_size)
qed

lemma empty_write_from_init:
  "dev_write dev_init True [] 0 0 = (dev_init\<lparr>data_available := 1\<rparr>, 0, Inr 0)"
  by (simp add: dev_write_def dev_init_def copy_from_user_def)

lemma reachable_after_empty_write:
  "reachable (dev_init\<lparr>data_available := 1\<rparr>)"
  using reach_write [OF reach_init, of True "[]" 0 0]
  by (simp add: empty_write_from_init)

text \<open>
  Claim C9. In \<^verbatim>\<open>mychardev.c\<close> the size is 0 initially; a write of more bytes than
  the current size is rejected with \<open>EINVAL\<close> and changes nothing; no write leaves a
  size above the one it found; reset leaves size 0. Hence the size is 0 in every
  reachable state, where every write of one byte or more returns \<open>EINVAL\<close> and every
  read returns 0 bytes, both without changing anything.
\<close>

theorem first_file_size_stays_zero:
  assumes "reachable s"
  shows "dev_buf_size dev_init = 0
       \<and> (\<forall>t acq ub n off. n > dev_buf_size t \<longrightarrow>
             dev_write t acq ub n off = (t, off, Inl EINVAL))
       \<and> (\<forall>t acq ub n off. dev_buf_size (fst (dev_write t acq ub n off)) \<le> dev_buf_size t)
       \<and> (\<forall>t. dev_buf_size (fst (dev_ioctl t IOCTL_RESET_BUF)) = 0)
       \<and> dev_buf_size s = 0
       \<and> (\<forall>acq ub n off. n \<noteq> 0 \<longrightarrow> dev_write s acq ub n off = (s, off, Inl EINVAL))
       \<and> (\<forall>acq ub n off. dev_read s acq ub n off = (s, ub, off, Inr 0))"
proof -
  from assms have z: "dev_buf_size s = 0" by (rule reachable_size_zero)
  have w: "dev_write s acq ub n off = (s, off, Inl EINVAL)" if "n \<noteq> 0" for acq ub n off
  proof -
    from that z have "n > dev_buf_size s" by (simp add: word_neq_0_conv)
    then show ?thesis by (rule dev_write_rejects)
  qed
  have r: "dev_read s acq ub n off = (s, ub, off, Inr 0)" for acq ub n off
    using z by (simp add: dev_read_past_end)
  have i: "dev_buf_size dev_init = 0" by (simp add: dev_init_def)
  have x: "dev_buf_size (fst (dev_ioctl t IOCTL_RESET_BUF)) = 0" for t
    by (simp add: dev_ioctl_def)
  from i z w r x show ?thesis
    by (simp add: dev_write_rejects dev_write_size_le)
qed

text \<open>
  The state after an empty write to the fresh module is reachable; there a write of the
  ten digits is rejected and a read of ten bytes returns none.
\<close>

theorem first_file_size_stays_zero_witness:
  "reachable (dev_init\<lparr>data_available := 1\<rparr>)
   \<and> dev_buf_size (dev_init\<lparr>data_available := 1\<rparr>) = 0
   \<and> dev_write (dev_init\<lparr>data_available := 1\<rparr>) True digits 10 0
        = (dev_init\<lparr>data_available := 1\<rparr>, 0, Inl EINVAL)
   \<and> dev_read (dev_init\<lparr>data_available := 1\<rparr>) True (replicate 10 0) 10 0
        = (dev_init\<lparr>data_available := 1\<rparr>, replicate 10 0, 0, Inr 0)"
proof -
  have h: "reachable (dev_init\<lparr>data_available := 1\<rparr>)"
    by (rule reachable_after_empty_write)
  from first_file_size_stays_zero [OF h] h show ?thesis
    by simp
qed

section \<open>A transfer that fails\<close>

lemma dev_read_fault:
  assumes "off < dev_buf_size s"
    and "length ub < unat (min n (dev_buf_size s - off))"
  shows "\<exists>u1. dev_read s True ub n off = (s, u1, off, Inl EFAULT)"
proof -
  obtain u1 k where c:
    "copy_to_user ub (dev_buf s) (unat (min n (dev_buf_size s - off))) = (u1, k)"
    by (cases "copy_to_user ub (dev_buf s) (unat (min n (dev_buf_size s - off)))")
  from copy_to_user_fault [OF assms(2), of "dev_buf s"] c have k: "k \<noteq> 0" by simp
  from assms(1) have "\<not> dev_buf_size s \<le> off" by (simp add: not_le)
  then have "dev_read s True ub n off = (s, u1, off, Inl EFAULT)"
    unfolding dev_read_def Let_def clamp_is_min
    using k by (simp add: c)
  then show ?thesis ..
qed

lemma device_read_fault:
  assumes "off < dev_buf_size s"
    and "length ub < unat (min n (dev_buf_size s - off))"
  shows "\<exists>u1. device_read s True ub n off = (s, u1, off, Inl EFAULT)"
proof -
  obtain u1 k where c:
    "copy_to_user ub (drop (unat off) (dev_buf s)) (unat (min n (dev_buf_size s - off)))
       = (u1, k)"
    by (cases "copy_to_user ub (drop (unat off) (dev_buf s))
                 (unat (min n (dev_buf_size s - off)))")
  from copy_to_user_fault [OF assms(2), of "drop (unat off) (dev_buf s)"] c
  have k: "k \<noteq> 0" by simp
  from assms(1) have "\<not> dev_buf_size s \<le> off" by (simp add: not_le)
  then have "device_read s True ub n off = (s, u1, off, Inl EFAULT)"
    unfolding device_read_def Let_def clamp_is_min
    using k by (simp add: c)
  then show ?thesis ..
qed

lemma dev_write_fault:
  assumes "n \<le> dev_buf_size s" and "length ub < unat n"
  shows "dev_write s True ub n off
           = (s\<lparr>dev_buf := fst (copy_from_user (dev_buf s) ub (unat n))\<rparr>, off, Inl EFAULT)"
proof -
  obtain buf1 k where c: "copy_from_user (dev_buf s) ub (unat n) = (buf1, k)"
    by (cases "copy_from_user (dev_buf s) ub (unat n)")
  from copy_from_user_fault [OF assms(2), of "dev_buf s"] c have k: "k \<noteq> 0" by simp
  from assms(1) have "\<not> n > dev_buf_size s" by (simp add: not_less)
  then show ?thesis
    unfolding dev_write_def Let_def
    using k by (simp add: c)
qed

lemma device_write_fault:
  assumes "n \<le> BUF_LEN" and "length ub < unat n"
  shows "device_write s True ub n off
           = (s\<lparr>dev_buf := fst (copy_from_user (dev_buf s) ub (unat n))\<rparr>, off, Inl EFAULT)"
proof -
  obtain buf1 k where c: "copy_from_user (dev_buf s) ub (unat n) = (buf1, k)"
    by (cases "copy_from_user (dev_buf s) ub (unat n)")
  from copy_from_user_fault [OF assms(2), of "dev_buf s"] c have k: "k \<noteq> 0" by simp
  from assms(1) have "\<not> n > BUF_LEN" by (simp add: not_less)
  then show ?thesis
    unfolding device_write_def Let_def
    using k by (simp add: c)
qed

text \<open>
  Claim C8 says that a read or write whose transfer fails returns \<open>EFAULT\<close> and changes
  no field. It does not hold for the contents on a write: the driver copies straight
  into its buffer, so the bytes that arrived before the fault, and the zeros
  \<open>copy_from_user\<close> puts in place of the others, stay there. Over the ten digits, a
  write of 2 bytes of which only the first is accessible returns \<open>EFAULT\<close> in both
  source files and leaves the bytes 88, 0 where 48, 49 were; the size is still 10, and
  a read of the second file delivers the changed bytes.
\<close>

theorem failed_write_changes_contents:
  "snd (snd (dev_write digits_state True [88] 2 0)) = Inl EFAULT
   \<and> take 2 (dev_buf (fst (dev_write digits_state True [88] 2 0))) = [88, 0]
   \<and> snd (snd (device_write digits_state True [88] 2 0)) = Inl EFAULT
   \<and> take 2 (dev_buf (fst (device_write digits_state True [88] 2 0))) = [88, 0]
   \<and> take 2 (dev_buf digits_state) = [48, 49]
   \<and> dev_buf (fst (device_write digits_state True [88] 2 0)) \<noteq> dev_buf digits_state
   \<and> dev_buf_size (fst (device_write digits_state True [88] 2 0)) = 10
   \<and> fst (snd (device_read (fst (device_write digits_state True [88] 2 0)) True
                  (replicate 2 0) 2 0)) = [88, 0]"
  by (simp add: dev_write_def device_write_def device_read_def copy_from_user_def
      copy_to_user_def digits_state_def digits_def BUF_LEN_def)

text \<open>
  Claim C8 as amended. In both source files a read or write whose transfer fails (the
  user range is shorter than the number of bytes to move, the lock being held) returns
  \<open>EFAULT\<close> and leaves the size, the flag and the offset as they were. A failed read
  leaves the buffer as it was too. A failed write leaves a buffer of the same length
  that agrees with the old one from byte \<open>n\<close> on, \<open>n\<close> being the number of bytes the
  write was asked to store.
\<close>

theorem fault_keeps_size_flag_offset:
  assumes wf: "dev_wf s"
  shows "(off < dev_buf_size s \<and> length ub < unat (min n (dev_buf_size s - off)) \<longrightarrow>
            (\<exists>u1. dev_read s True ub n off = (s, u1, off, Inl EFAULT)))
       \<and> (off < dev_buf_size s \<and> length ub < unat (min n (dev_buf_size s - off)) \<longrightarrow>
            (\<exists>u1. device_read s True ub n off = (s, u1, off, Inl EFAULT)))
       \<and> (n \<le> dev_buf_size s \<and> length ub < unat n \<longrightarrow>
            (\<exists>buf1. dev_write s True ub n off = (s\<lparr>dev_buf := buf1\<rparr>, off, Inl EFAULT)
               \<and> length buf1 = length (dev_buf s)
               \<and> drop (unat n) buf1 = drop (unat n) (dev_buf s)))
       \<and> (n \<le> BUF_LEN \<and> length ub < unat n \<longrightarrow>
            (\<exists>buf1. device_write s True ub n off = (s\<lparr>dev_buf := buf1\<rparr>, off, Inl EFAULT)
               \<and> length buf1 = length (dev_buf s)
               \<and> drop (unat n) buf1 = drop (unat n) (dev_buf s)))"
proof (intro conjI impI)
  assume "off < dev_buf_size s \<and> length ub < unat (min n (dev_buf_size s - off))"
  then show "\<exists>u1. dev_read s True ub n off = (s, u1, off, Inl EFAULT)"
    by (simp add: dev_read_fault)
next
  assume "off < dev_buf_size s \<and> length ub < unat (min n (dev_buf_size s - off))"
  then show "\<exists>u1. device_read s True ub n off = (s, u1, off, Inl EFAULT)"
    by (simp add: device_read_fault)
next
  assume a: "n \<le> dev_buf_size s \<and> length ub < unat n"
  then have "n \<le> dev_buf_size s" by simp
  also from wf have "dev_buf_size s \<le> DEV_BUF_LEN" by (simp add: dev_wf_def)
  finally have "n \<le> DEV_BUF_LEN" .
  with wf have fits: "unat n \<le> length (dev_buf s)"
    by (simp add: dev_wf_def word_le_nat_alt)
  from a have "dev_write s True ub n off
      = (s\<lparr>dev_buf := fst (copy_from_user (dev_buf s) ub (unat n))\<rparr>, off, Inl EFAULT)"
    by (simp add: dev_write_fault)
  with fits show "\<exists>buf1. dev_write s True ub n off = (s\<lparr>dev_buf := buf1\<rparr>, off, Inl EFAULT)
               \<and> length buf1 = length (dev_buf s)
               \<and> drop (unat n) buf1 = drop (unat n) (dev_buf s)"
    by (intro exI [of _ "fst (copy_from_user (dev_buf s) ub (unat n))"])
      (simp add: copy_from_user_length copy_from_user_drop)
next
  assume a: "n \<le> BUF_LEN \<and> length ub < unat n"
  with wf have fits: "unat n \<le> length (dev_buf s)"
    by (simp add: dev_wf_def word_le_nat_alt BUF_LEN_def DEV_BUF_LEN_def)
  from a have "device_write s True ub n off
      = (s\<lparr>dev_buf := fst (copy_from_user (dev_buf s) ub (unat n))\<rparr>, off, Inl EFAULT)"
    by (simp add: device_write_fault)
  with fits show "\<exists>buf1. device_write s True ub n off = (s\<lparr>dev_buf := buf1\<rparr>, off, Inl EFAULT)
               \<and> length buf1 = length (dev_buf s)
               \<and> drop (unat n) buf1 = drop (unat n) (dev_buf s)"
    by (intro exI [of _ "fst (copy_from_user (dev_buf s) ub (unat n))"])
      (simp add: copy_from_user_length copy_from_user_drop)
qed

text \<open>
  Over the ten digits: a read of 5 bytes at offset 5 into a user range of 4 bytes, and a
  write of 2 bytes from a user range of 1 byte.
\<close>

theorem fault_keeps_size_flag_offset_witness:
  "dev_wf digits_state
   \<and> (5 :: size_t) < dev_buf_size digits_state
   \<and> length (replicate 4 (0 :: byte)) < unat (min (5 :: size_t) (dev_buf_size digits_state - 5))
   \<and> (\<exists>u1. dev_read digits_state True (replicate 4 0) 5 5 = (digits_state, u1, 5, Inl EFAULT))
   \<and> (\<exists>u1. device_read digits_state True (replicate 4 0) 5 5
              = (digits_state, u1, 5, Inl EFAULT))
   \<and> (2 :: size_t) \<le> dev_buf_size digits_state \<and> (2 :: size_t) \<le> BUF_LEN
   \<and> length [88 :: byte] < unat (2 :: size_t)
   \<and> (\<exists>buf1. dev_write digits_state True [88] 2 0
                 = (digits_state\<lparr>dev_buf := buf1\<rparr>, 0, Inl EFAULT)
          \<and> length buf1 = length (dev_buf digits_state)
          \<and> drop (unat (2 :: size_t)) buf1 = drop (unat (2 :: size_t)) (dev_buf digits_state))
   \<and> (\<exists>buf1. device_write digits_state True [88] 2 0
                 = (digits_state\<lparr>dev_buf := buf1\<rparr>, 0, Inl EFAULT)
          \<and> length buf1 = length (dev_buf digits_state)
          \<and> drop (unat (2 :: size_t)) buf1 = drop (unat (2 :: size_t)) (dev_buf digits_state))"
proof -
  have wf: "dev_wf digits_state"
    by (simp add: dev_wf_def digits_state_def digits_def DEV_BUF_LEN_def)
  have r1: "(5 :: size_t) < dev_buf_size digits_state" by (simp add: digits_state_def)
  have r2: "length (replicate 4 (0 :: byte))
              < unat (min (5 :: size_t) (dev_buf_size digits_state - 5))"
    by (simp add: digits_state_def)
  have w1: "(2 :: size_t) \<le> dev_buf_size digits_state" by (simp add: digits_state_def)
  have w2: "(2 :: size_t) \<le> BUF_LEN" by (simp add: BUF_LEN_def)
  have w3: "length [88 :: byte] < unat (2 :: size_t)" by simp
  note rd = fault_keeps_size_flag_offset [OF wf, where off = 5 and ub = "replicate 4 0"
      and n = 5]
  note wr = fault_keeps_size_flag_offset [OF wf, where off = 0 and ub = "[88]" and n = 2]
  from rd wr wf r1 r2 w1 w2 w3 show ?thesis
    by blast
qed

section \<open>Where the two source files differ\<close>

lemma device_reachable_wf:
  "device_reachable s \<Longrightarrow> dev_wf s"
proof (induction rule: device_reachable.induct)
  case dreach_init
  show ?case by (simp add: dev_wf_def dev_init_def DEV_BUF_LEN_def)
next
  case (dreach_open s)
  then show ?case by (simp add: device_open_def)
next
  case (dreach_release s)
  then show ?case by (simp add: device_release_def)
next
  case (dreach_read s acquired user_buffer amount_to_read device_buffer_offset)
  then show ?case
    by (simp add: device_read_def Let_def dev_wf_def split: prod.splits)
next
  case (dreach_write s acquired user_buffer amount_to_write device_buffer_offset)
  show ?case
  proof (cases "amount_to_write > BUF_LEN")
    case True
    with dreach_write.IH show ?thesis by (simp add: device_write_def)
  next
    case False
    then have le: "amount_to_write \<le> DEV_BUF_LEN"
      by (simp add: not_less BUF_LEN_def DEV_BUF_LEN_def)
    with dreach_write.IH have "unat amount_to_write \<le> length (dev_buf s)"
      by (simp add: dev_wf_def word_le_nat_alt)
    then have len: "length (fst (copy_from_user (dev_buf s) user_buffer (unat amount_to_write)))
                 = length (dev_buf s)"
      by (rule copy_from_user_length)
    obtain buf1 k where c:
      "copy_from_user (dev_buf s) user_buffer (unat amount_to_write) = (buf1, k)"
      by (cases "copy_from_user (dev_buf s) user_buffer (unat amount_to_write)")
    with len have "length buf1 = length (dev_buf s)" by simp
    with False le dreach_write.IH show ?thesis
      by (simp add: device_write_def Let_def dev_wf_def c)
  qed
next
  case (dreach_poll s device_buffer_offset)
  then show ?case by (simp add: device_poll_eq)
next
  case (dreach_ioctl s cmd)
  then show ?case
    by (simp add: device_ioctl_def dev_wf_def memset_def BUF_LEN_def DEV_BUF_LEN_def)
qed



text \<open>
  The write of the second file: \<open>EINVAL\<close> exactly for more than 256 bytes, and then
  nothing changes; up to 256 accessible bytes are stored, with the lock, at the start
  of the buffer, the size becomes their number and the flag 1.
\<close>

lemma device_write_contract:
  "(snd (snd (device_write s acq ub n off)) = Inl EINVAL) = (n > BUF_LEN)
   \<and> (n > BUF_LEN \<longrightarrow> device_write s acq ub n off = (s, off, Inl EINVAL))
   \<and> (n \<le> BUF_LEN \<and> unat n \<le> length ub \<longrightarrow>
        device_write s True ub n off =
          (s\<lparr>dev_buf := take (unat n) ub @ drop (unat n) (dev_buf s),
             dev_buf_size := n, data_available := 1\<rparr>, off, Inr n))"
proof (intro conjI impI)
  show "(snd (snd (device_write s acq ub n off)) = Inl EINVAL) = (n > BUF_LEN)"
    by (simp add: device_write_def Let_def split: prod.splits)
next
  assume "n > BUF_LEN"
  then show "device_write s acq ub n off = (s, off, Inl EINVAL)"
    by (rule device_write_too_long)
next
  assume "n \<le> BUF_LEN \<and> unat n \<le> length ub"
  then show "device_write s True ub n off =
          (s\<lparr>dev_buf := take (unat n) ub @ drop (unat n) (dev_buf s),
             dev_buf_size := n, data_available := 1\<rparr>, off, Inr n)"
    by (simp add: device_write_ok)
qed

text \<open>
  Past the states it reaches, the read of \<^verbatim>\<open>mychardev.c\<close> is not that of the second
  file: it passes \<open>dev_buf\<close>, not \<open>dev_buf + *dev_offset\<close>, to \<open>copy_to_user\<close>. Were
  the ten digits in its buffer with size 10, a read of 5 bytes at offset 5 would deliver
  the bytes 48 to 52, where \<open>device_read\<close> delivers 53 to 57. With the write guard of
  that file the size stays 0 and no read gets that far.
\<close>

lemma dev_read_copies_from_start:
  "dev_read digits_state True (replicate 5 0) 5 5
     = (digits_state\<lparr>data_available := 0\<rparr>, [48, 49, 50, 51, 52], 10, Inr 5)
   \<and> device_read digits_state True (replicate 5 0) 5 5
     = (digits_state\<lparr>data_available := 0\<rparr>, [53, 54, 55, 56, 57], 10, Inr 5)
   \<and> \<not> reachable digits_state"
proof -
  have "dev_buf_size digits_state \<noteq> 0" by (simp add: digits_state_def)
  then have "\<not> reachable digits_state" by (auto dest: reachable_size_zero)
  then show ?thesis
    by (simp add: dev_read_def device_read_def copy_to_user_def digits_state_def digits_def)
qed

text \<open>
  Claim C3 says that a write fails with \<open>EINVAL\<close> exactly when it has more than 256
  bytes. \<open>dev_write\<close> of \<^verbatim>\<open>mychardev.c\<close> compares with \<open>dev_buf_size\<close>, the number of
  bytes now held, not with \<open>DEV_BUF_LEN\<close>: on the fresh module a write of the single
  byte 65 returns \<open>EINVAL\<close>, while \<open>device_write\<close> of the second file stores it.
\<close>

theorem first_file_rejects_one_byte:
  "(1 :: size_t) \<le> DEV_BUF_LEN
   \<and> dev_write dev_init True [65] 1 0 = (dev_init, 0, Inl EINVAL)
   \<and> device_write dev_init True [65] 1 0
     = (\<lparr>data_available = 1, dev_buf = 65 # replicate 255 0, dev_buf_size = 1\<rparr>, 0, Inr 1)"
  by (simp add: dev_write_def device_write_def copy_from_user_def dev_init_def
      DEV_BUF_LEN_def BUF_LEN_def)

lemma empty_device_write_from_init:
  "device_write dev_init True [] 0 0 = (dev_init\<lparr>data_available := 1\<rparr>, 0, Inr 0)"
  by (simp add: device_write_def dev_init_def copy_from_user_def BUF_LEN_def)

lemma device_reachable_after_empty_write:
  "device_reachable (dev_init\<lparr>data_available := 1\<rparr>)"
  using dreach_write [OF dreach_init, of True "[]" 0 0]
  by (simp add: empty_device_write_from_init)

text \<open>
  Claim C4 says that in every reachable state a set flag implies a size above 0. In
  both source files a write of 0 bytes to the fresh module succeeds, returns 0, and
  leaves the flag 1 with the size 0.
\<close>

theorem empty_write_sets_flag_without_data:
  "dev_write dev_init True [] 0 0 = (dev_init\<lparr>data_available := 1\<rparr>, 0, Inr 0)
   \<and> reachable (dev_init\<lparr>data_available := 1\<rparr>)
   \<and> device_write dev_init True [] 0 0 = (dev_init\<lparr>data_available := 1\<rparr>, 0, Inr 0)
   \<and> device_reachable (dev_init\<lparr>data_available := 1\<rparr>)
   \<and> data_available (dev_init\<lparr>data_available := 1\<rparr>) = 1
   \<and> dev_buf_size (dev_init\<lparr>data_available := 1\<rparr>) = 0"
  by (simp add: empty_write_from_init reachable_after_empty_write
      empty_device_write_from_init device_reachable_after_empty_write)
    (simp add: dev_init_def)

end
